theory Spec2Isabelle
  imports Main "HOL-Library.Word"
begin

unbundle bit_operations_syntax

section \<open>The 256-bit register and its eight 32-bit lanes\<close>

text \<open>
  \<^verbatim>\<open>avx2_32.cpp\<close> wraps the two AVX2 register types \<^verbatim>\<open>__m256i\<close> and \<^verbatim>\<open>__m256\<close>.
  Both hold eight 32-bit lanes (\<^verbatim>\<open>k_cSIMDPack = 1 << 3\<close>). A register is a value with
  eight components, lane 0 first. A \<^verbatim>\<open>uint32_t\<close> lane is a 32-bit word; a \<^verbatim>\<open>float\<close>
  lane is its IEEE-754 binary32 bit pattern, also a 32-bit word, which is what
  \<^verbatim>\<open>_mm256_castps_si256\<close> and \<^verbatim>\<open>_mm256_castsi256_ps\<close> reinterpret without changing a bit.
\<close>

type_synonym u32 = "32 word"
type_synonym f32 = "32 word"

datatype 'a m256 = M256 'a 'a 'a 'a 'a 'a 'a 'a

definition k_cSIMDShift :: nat where
  "k_cSIMDShift = 3"

definition k_cSIMDPack :: nat where
  "k_cSIMDPack = 2 ^ k_cSIMDShift"

text \<open>The contents of a register written to an array of eight elements, and read back.\<close>

fun to_array :: "'a m256 \<Rightarrow> 'a list" where
  "to_array (M256 x0 x1 x2 x3 x4 x5 x6 x7) = [x0, x1, x2, x3, x4, x5, x6, x7]"

definition of_array :: "'a list \<Rightarrow> 'a m256" where
  "of_array a = M256 (a ! 0) (a ! 1) (a ! 2) (a ! 3) (a ! 4) (a ! 5) (a ! 6) (a ! 7)"

definition lane :: "'a m256 \<Rightarrow> nat \<Rightarrow> 'a" where
  "lane v i = to_array v ! i"

text \<open>Lane-wise operations: \<open>map_m256\<close> (of the datatype) and its binary companion.\<close>

fun map2_m256 :: "('a \<Rightarrow> 'b \<Rightarrow> 'c) \<Rightarrow> 'a m256 \<Rightarrow> 'b m256 \<Rightarrow> 'c m256" where
  "map2_m256 f (M256 x0 x1 x2 x3 x4 x5 x6 x7) (M256 y0 y1 y2 y3 y4 y5 y6 y7) =
     M256 (f x0 y0) (f x1 y1) (f x2 y2) (f x3 y3) (f x4 y4) (f x5 y5) (f x6 y6) (f x7 y7)"

subsection \<open>The intrinsics the source calls\<close>

definition mm256_set1_epi32 :: "u32 \<Rightarrow> u32 m256" where
  "mm256_set1_epi32 x = M256 x x x x x x x x"

definition mm256_xor_si256 :: "u32 m256 \<Rightarrow> u32 m256 \<Rightarrow> u32 m256" where
  "mm256_xor_si256 a b = map2_m256 (\<lambda>x y. x XOR y) a b"

definition mm256_and_ps :: "f32 m256 \<Rightarrow> f32 m256 \<Rightarrow> f32 m256" where
  "mm256_and_ps a b = map2_m256 (\<lambda>x y. x AND y) a b"

definition mm256_castps_si256 :: "f32 m256 \<Rightarrow> u32 m256" where
  "mm256_castps_si256 a = a"

definition mm256_castsi256_ps :: "u32 m256 \<Rightarrow> f32 m256" where
  "mm256_castsi256_ps a = a"

section \<open>The two lane types\<close>

datatype Avx2_32_Int = Avx2_32_Int (i_data: "u32 m256")

datatype Avx2_32_Float = Avx2_32_Float (f_data: "f32 m256")

text \<open>\<^verbatim>\<open>Avx2_32_Float::operator-()\<close>: exclusive or of every lane with \<^verbatim>\<open>0x80000000\<close>.\<close>

definition neg :: "Avx2_32_Float \<Rightarrow> Avx2_32_Float" where
  "neg v = Avx2_32_Float (mm256_castsi256_ps
     (mm256_xor_si256 (mm256_castps_si256 (f_data v)) (mm256_set1_epi32 0x80000000)))"

text \<open>\<^verbatim>\<open>Abs\<close>: bitwise and of every lane with \<^verbatim>\<open>0x7FFFFFFF\<close>.\<close>

definition Abs :: "Avx2_32_Float \<Rightarrow> Avx2_32_Float" where
  "Abs val = Avx2_32_Float (mm256_and_ps (f_data val)
     (mm256_castsi256_ps (mm256_set1_epi32 0x7FFFFFFF)))"

section \<open>Memory, alignment and the debug assertion\<close>

text \<open>
  A pointer to \<^verbatim>\<open>uint32_t\<close> or \<^verbatim>\<open>float\<close> is a byte address. Memory gives the 32-bit
  element stored at a byte address; element \<open>k\<close> of the array at \<open>a\<close> lives at
  \<open>a + 4 * k\<close>. The function receives no length with the pointer, so the model has none:
  staying inside the caller's buffer is the caller's obligation.
\<close>

type_synonym addr = nat
type_synonym mem = "addr \<Rightarrow> 32 word"

text \<open>
  Modelled from the spec: \<^verbatim>\<open>IsAligned\<close> and \<^verbatim>\<open>EBM_ASSERT\<close> come from \<^verbatim>\<open>common_c.h\<close>
  and \<^verbatim>\<open>logging.h\<close>, which are not among the given sources. An address is aligned to
  \<open>n\<close> bytes when it is a multiple of \<open>n\<close>. \<^verbatim>\<open>EBM_ASSERT\<close> checks its condition in a
  debug build, where a failure stops the program, and is compiled out of a release
  build: \<open>debug\<close> says which build runs.
\<close>

definition IsAligned :: "addr \<Rightarrow> nat \<Rightarrow> bool" where
  "IsAligned p n = (p mod n = 0)"

datatype fault = AssertionFailed | GeneralProtection

definition EBM_ASSERT :: "bool \<Rightarrow> bool \<Rightarrow> (fault + 'a) \<Rightarrow> fault + 'a" where
  "EBM_ASSERT debug cond rest = (if debug \<and> \<not> cond then Inl AssertionFailed else rest)"

text \<open>\<^verbatim>\<open>sizeof(TPack)\<close>: a 256-bit register is 32 bytes.\<close>

definition sizeof_TPack :: nat where
  "sizeof_TPack = 32"

text \<open>
  \<^verbatim>\<open>_mm256_load_si256\<close>, \<^verbatim>\<open>_mm256_load_ps\<close>: eight consecutive elements. The processor
  raises a general-protection exception when the address is not a multiple of 32.
\<close>

definition mm256_load :: "mem \<Rightarrow> addr \<Rightarrow> fault + 32 word m256" where
  "mm256_load m a =
     (if a mod 32 \<noteq> 0 then Inl GeneralProtection
      else Inr (M256 (m a) (m (a + 4)) (m (a + 8)) (m (a + 12))
                     (m (a + 16)) (m (a + 20)) (m (a + 24)) (m (a + 28))))"

text \<open>\<^verbatim>\<open>_mm256_store_si256\<close>, \<^verbatim>\<open>_mm256_store_ps\<close>, with the same requirement.\<close>

fun mm256_store :: "mem \<Rightarrow> addr \<Rightarrow> 32 word m256 \<Rightarrow> fault + mem" where
  "mm256_store m a (M256 x0 x1 x2 x3 x4 x5 x6 x7) =
     (if a mod 32 \<noteq> 0 then Inl GeneralProtection
      else Inr (m(a := x0, a + 4 := x1, a + 8 := x2, a + 12 := x3,
                  a + 16 := x4, a + 20 := x5, a + 24 := x6, a + 28 := x7)))"

text \<open>
  \<^verbatim>\<open>_mm256_i32gather_ps(a, idx, 4)\<close>: lane \<open>k\<close> is read from \<open>a + 4 * idx[k]\<close>, the
  index taken as a signed 32-bit integer. It has no alignment requirement of its own.
\<close>

definition gather_addr :: "addr \<Rightarrow> u32 \<Rightarrow> addr" where
  "gather_addr a x = nat (int a + 4 * sint x)"

definition mm256_i32gather_ps :: "mem \<Rightarrow> addr \<Rightarrow> u32 m256 \<Rightarrow> f32 m256" where
  "mm256_i32gather_ps m a idx = map_m256 (\<lambda>x. m (gather_addr a x)) idx"

subsection \<open>Load and Store of the two lane types\<close>

definition Int_Load :: "bool \<Rightarrow> mem \<Rightarrow> addr \<Rightarrow> fault + Avx2_32_Int" where
  "Int_Load debug m a =
     EBM_ASSERT debug (IsAligned a sizeof_TPack)
       (case mm256_load m a of Inl e \<Rightarrow> Inl e | Inr r \<Rightarrow> Inr (Avx2_32_Int r))"

definition Int_Store :: "bool \<Rightarrow> Avx2_32_Int \<Rightarrow> mem \<Rightarrow> addr \<Rightarrow> fault + mem" where
  "Int_Store debug v m a =
     EBM_ASSERT debug (IsAligned a sizeof_TPack) (mm256_store m a (i_data v))"

definition Float_Load :: "bool \<Rightarrow> mem \<Rightarrow> addr \<Rightarrow> fault + Avx2_32_Float" where
  "Float_Load debug m a =
     EBM_ASSERT debug (IsAligned a sizeof_TPack)
       (case mm256_load m a of Inl e \<Rightarrow> Inl e | Inr r \<Rightarrow> Inr (Avx2_32_Float r))"

definition Float_Store :: "bool \<Rightarrow> Avx2_32_Float \<Rightarrow> mem \<Rightarrow> addr \<Rightarrow> fault + mem" where
  "Float_Store debug v m a =
     EBM_ASSERT debug (IsAligned a sizeof_TPack) (mm256_store m a (f_data v))"

text \<open>\<^verbatim>\<open>Load(const T * a, const TInt i)\<close>, the gather.\<close>

definition Float_Load_idx :: "bool \<Rightarrow> mem \<Rightarrow> addr \<Rightarrow> Avx2_32_Int \<Rightarrow> fault + Avx2_32_Float" where
  "Float_Load_idx debug m a i =
     EBM_ASSERT debug (IsAligned a sizeof_TPack)
       (Inr (Avx2_32_Float (mm256_i32gather_ps m a (i_data i))))"

text \<open>
  \<^verbatim>\<open>Store(T * a, const TInt i)\<close>, the scatter. The indexes and the values are first
  stored to the two local arrays \<^verbatim>\<open>ints\<close> and \<^verbatim>\<open>floats\<close> (declared
  \<^verbatim>\<open>alignas(SIMD_BYTE_ALIGNMENT)\<close>, so their own stores are aligned), then the eight
  assignments \<^verbatim>\<open>a[ints[k]] = floats[k]\<close> run in the order they are written. An index
  is a \<^verbatim>\<open>uint32_t\<close>: it is read unsigned.
\<close>

definition Float_Store_idx ::
  "bool \<Rightarrow> Avx2_32_Float \<Rightarrow> mem \<Rightarrow> addr \<Rightarrow> Avx2_32_Int \<Rightarrow> fault + mem" where
  "Float_Store_idx debug v m a i =
     EBM_ASSERT debug (IsAligned a sizeof_TPack)
       (let ints = to_array (i_data i);
            floats = to_array (f_data v);
            m = m(a + 4 * unat (ints ! 0) := floats ! 0);
            m = m(a + 4 * unat (ints ! 1) := floats ! 1);
            m = m(a + 4 * unat (ints ! 2) := floats ! 2);
            m = m(a + 4 * unat (ints ! 3) := floats ! 3);
            m = m(a + 4 * unat (ints ! 4) := floats ! 4);
            m = m(a + 4 * unat (ints ! 5) := floats ! 5);
            m = m(a + 4 * unat (ints ! 6) := floats ! 6);
            m = m(a + 4 * unat (ints ! 7) := floats ! 7)
        in Inr m)"

text \<open>
  What a sequence of array assignments leaves at each address: the assignments of a list
  of (address, value) pairs, first pair first.
\<close>

fun assign_all :: "(addr \<times> 32 word) list \<Rightarrow> mem \<Rightarrow> mem" where
  "assign_all [] m = m"
| "assign_all ((p, x) # ws) m = assign_all ws (m(p := x))"

text \<open>The eight assignments of the scatter, lane 0 first: where, and what.\<close>

definition lane_writes :: "addr \<Rightarrow> Avx2_32_Int \<Rightarrow> Avx2_32_Float \<Rightarrow> (addr \<times> 32 word) list" where
  "lane_writes a i v =
     map (\<lambda>k. (a + 4 * unat (lane (i_data i) k), lane (f_data v) k)) [0..<8]"

section \<open>Execute and ApplyFunc\<close>

text \<open>
  The callback of \<^verbatim>\<open>Execute\<close> returns nothing: all it does is its effect. The model
  gives it a state of any type \<open>'s\<close>, which each call takes and returns; the order of the
  calls is the order in which the state is threaded. The register is first stored to the
  local array \<^verbatim>\<open>a0\<close>, declared \<^verbatim>\<open>alignas(SIMD_BYTE_ALIGNMENT)\<close>: the array is a list of
  eight elements, and its store is taken to meet the alignment that \<^verbatim>\<open>Store\<close> asserts.
\<close>

definition Int_Execute :: "(nat \<Rightarrow> u32 \<Rightarrow> 's \<Rightarrow> 's) \<Rightarrow> Avx2_32_Int \<Rightarrow> 's \<Rightarrow> 's" where
  "Int_Execute func val0 s =
     (let a0 = to_array (i_data val0);
          s = func 0 (a0 ! 0) s;
          s = func 1 (a0 ! 1) s;
          s = func 2 (a0 ! 2) s;
          s = func 3 (a0 ! 3) s;
          s = func 4 (a0 ! 4) s;
          s = func 5 (a0 ! 5) s;
          s = func 6 (a0 ! 6) s;
          s = func 7 (a0 ! 7) s
      in s)"

text \<open>The three overloads of \<^verbatim>\<open>Avx2_32_Float::Execute\<close>: no register, one, two.\<close>

definition Float_Execute0 :: "(nat \<Rightarrow> 's \<Rightarrow> 's) \<Rightarrow> 's \<Rightarrow> 's" where
  "Float_Execute0 func s =
     (let s = func 0 s;
          s = func 1 s;
          s = func 2 s;
          s = func 3 s;
          s = func 4 s;
          s = func 5 s;
          s = func 6 s;
          s = func 7 s
      in s)"

definition Float_Execute1 :: "(nat \<Rightarrow> f32 \<Rightarrow> 's \<Rightarrow> 's) \<Rightarrow> Avx2_32_Float \<Rightarrow> 's \<Rightarrow> 's" where
  "Float_Execute1 func val0 s =
     (let a0 = to_array (f_data val0);
          s = func 0 (a0 ! 0) s;
          s = func 1 (a0 ! 1) s;
          s = func 2 (a0 ! 2) s;
          s = func 3 (a0 ! 3) s;
          s = func 4 (a0 ! 4) s;
          s = func 5 (a0 ! 5) s;
          s = func 6 (a0 ! 6) s;
          s = func 7 (a0 ! 7) s
      in s)"

definition Float_Execute2 ::
  "(nat \<Rightarrow> f32 \<Rightarrow> f32 \<Rightarrow> 's \<Rightarrow> 's) \<Rightarrow> Avx2_32_Float \<Rightarrow> Avx2_32_Float \<Rightarrow> 's \<Rightarrow> 's" where
  "Float_Execute2 func val0 val1 s =
     (let a0 = to_array (f_data val0);
          a1 = to_array (f_data val1);
          s = func 0 (a0 ! 0) (a1 ! 0) s;
          s = func 1 (a0 ! 1) (a1 ! 1) s;
          s = func 2 (a0 ! 2) (a1 ! 2) s;
          s = func 3 (a0 ! 3) (a1 ! 3) s;
          s = func 4 (a0 ! 4) (a1 ! 4) s;
          s = func 5 (a0 ! 5) (a1 ! 5) s;
          s = func 6 (a0 ! 6) (a1 ! 6) s;
          s = func 7 (a0 ! 7) (a1 ! 7) s
      in s)"

text \<open>
  \<^verbatim>\<open>ApplyFunc\<close>: the callback takes a lane's scalar and returns the scalar written back
  to the same element of \<^verbatim>\<open>aTemp\<close>; the array is then loaded as the result. The callback
  may have an effect too, so it also takes and returns a state.
\<close>

definition ApplyFunc :: "(f32 \<Rightarrow> 's \<Rightarrow> f32 \<times> 's) \<Rightarrow> Avx2_32_Float \<Rightarrow> 's \<Rightarrow> Avx2_32_Float \<times> 's" where
  "ApplyFunc func val s =
     (let aTemp = to_array (f_data val);
          (r, s) = func (aTemp ! 0) s; aTemp = aTemp[0 := r];
          (r, s) = func (aTemp ! 1) s; aTemp = aTemp[1 := r];
          (r, s) = func (aTemp ! 2) s; aTemp = aTemp[2 := r];
          (r, s) = func (aTemp ! 3) s; aTemp = aTemp[3 := r];
          (r, s) = func (aTemp ! 4) s; aTemp = aTemp[4 := r];
          (r, s) = func (aTemp ! 5) s; aTemp = aTemp[5 := r];
          (r, s) = func (aTemp ! 6) s; aTemp = aTemp[6 := r];
          (r, s) = func (aTemp ! 7) s; aTemp = aTemp[7 := r]
      in (Avx2_32_Float (of_array aTemp), s))"

text \<open>A callback applied to the elements of an array from first to last, with its state.\<close>

fun map_thread :: "('a \<Rightarrow> 's \<Rightarrow> 'b \<times> 's) \<Rightarrow> 'a list \<Rightarrow> 's \<Rightarrow> 'b list \<times> 's" where
  "map_thread f [] s = ([], s)"
| "map_thread f (x # xs) s =
     (case f x s of (y, s') \<Rightarrow> (case map_thread f xs s' of (ys, s'') \<Rightarrow> (y # ys, s'')))"

section \<open>Comparison and selection\<close>

text \<open>
  The ordered comparison of two binary32 values, on their bit patterns. A NaN has all
  exponent bits set and a mantissa that is not zero, and compares false with everything.
  Otherwise the values are ordered as sign and magnitude, the two zeros being equal.
\<close>

definition f32_is_nan :: "f32 \<Rightarrow> bool" where
  "f32_is_nan x = (0x7F800000 < (x AND 0x7FFFFFFF))"

definition f32_order :: "f32 \<Rightarrow> int" where
  "f32_order x = (if bit x 31 then - uint (x AND 0x7FFFFFFF) else uint x)"

definition f32_less :: "f32 \<Rightarrow> f32 \<Rightarrow> bool" where
  "f32_less x y = (\<not> f32_is_nan x \<and> \<not> f32_is_nan y \<and> f32_order x < f32_order y)"

text \<open>
  \<^verbatim>\<open>_mm256_cmp_ps(a, b, _CMP_LT_OQ)\<close> and \<^verbatim>\<open>_mm256_cmpeq_epi32(a, b)\<close>: a lane of the
  mask has all bits set where the test holds and none where it does not.
\<close>

definition mm256_cmp_ps_LT_OQ :: "f32 m256 \<Rightarrow> f32 m256 \<Rightarrow> f32 m256" where
  "mm256_cmp_ps_LT_OQ a b = map2_m256 (\<lambda>x y. if f32_less x y then 0xFFFFFFFF else 0) a b"

definition mm256_cmpeq_epi32 :: "u32 m256 \<Rightarrow> u32 m256 \<Rightarrow> u32 m256" where
  "mm256_cmpeq_epi32 a b = map2_m256 (\<lambda>x y. if x = y then 0xFFFFFFFF else 0) a b"

text \<open>
  \<^verbatim>\<open>_mm256_blendv_ps(a, b, mask)\<close>: a lane comes from \<open>b\<close> where the top bit of the
  mask's lane is set, from \<open>a\<close> where it is clear.
\<close>

fun mm256_blendv_ps :: "f32 m256 \<Rightarrow> f32 m256 \<Rightarrow> f32 m256 \<Rightarrow> f32 m256" where
  "mm256_blendv_ps (M256 a0 a1 a2 a3 a4 a5 a6 a7) (M256 b0 b1 b2 b3 b4 b5 b6 b7)
       (M256 k0 k1 k2 k3 k4 k5 k6 k7) =
     M256 (if bit k0 31 then b0 else a0) (if bit k1 31 then b1 else a1)
          (if bit k2 31 then b2 else a2) (if bit k3 31 then b3 else a3)
          (if bit k4 31 then b4 else a4) (if bit k5 31 then b5 else a5)
          (if bit k6 31 then b6 else a6) (if bit k7 31 then b7 else a7)"

definition IfLess ::
  "Avx2_32_Float \<Rightarrow> Avx2_32_Float \<Rightarrow> Avx2_32_Float \<Rightarrow> Avx2_32_Float \<Rightarrow> Avx2_32_Float" where
  "IfLess cmp1 cmp2 trueVal falseVal =
     (let mask = mm256_cmp_ps_LT_OQ (f_data cmp1) (f_data cmp2)
      in Avx2_32_Float (mm256_blendv_ps (f_data falseVal) (f_data trueVal) mask))"

definition IfEqual ::
  "Avx2_32_Int \<Rightarrow> Avx2_32_Int \<Rightarrow> Avx2_32_Float \<Rightarrow> Avx2_32_Float \<Rightarrow> Avx2_32_Float" where
  "IfEqual cmp1 cmp2 trueVal falseVal =
     (let mask = mm256_cmpeq_epi32 (i_data cmp1) (i_data cmp2)
      in Avx2_32_Float
           (mm256_blendv_ps (f_data falseVal) (f_data trueVal) (mm256_castsi256_ps mask)))"

section \<open>The horizontal sum\<close>

subsection \<open>The addition of two binary32 values\<close>

text \<open>
  \<^verbatim>\<open>_mm_add_ps\<close> and \<^verbatim>\<open>_mm_hadd_ps\<close> add binary32 values as the processor does with its
  default control word: the exact sum rounded to the nearest value, ties to the even
  mantissa, denormals kept. A bit pattern has a sign (bit 31), an exponent field (bits
  23 to 30) and a fraction (bits 0 to 22). Every finite value is a whole number of units
  of \<open>2\<^sup>-\<^sup>1\<^sup>4\<^sup>9\<close>, the smallest denormal; an exponent field of 255 is an infinity or
  a NaN and has no value.
\<close>

definition f32_sign :: "f32 \<Rightarrow> bool" where
  "f32_sign x = (2 ^ 31 \<le> unat x)"

definition f32_exp :: "f32 \<Rightarrow> nat" where
  "f32_exp x = (unat x div 2 ^ 23) mod 256"

definition f32_frac :: "f32 \<Rightarrow> nat" where
  "f32_frac x = unat x mod 2 ^ 23"

definition f32_mag :: "f32 \<Rightarrow> nat" where
  "f32_mag x =
     (if f32_exp x = 0 then f32_frac x else (2 ^ 23 + f32_frac x) * 2 ^ (f32_exp x - 1))"

definition f32_units :: "f32 \<Rightarrow> int option" where
  "f32_units x =
     (if f32_exp x = 255 then None
      else Some (if f32_sign x then - int (f32_mag x) else int (f32_mag x)))"

text \<open>How many low bits a magnitude loses so that 24 bits remain.\<close>

function shift_of :: "nat \<Rightarrow> nat" where
  "shift_of a = (if a < 2 ^ 24 then 0 else Suc (shift_of (a div 2)))"
  by pat_completeness auto
termination
  by (relation "measure id") auto

declare shift_of.simps [simp del]

text \<open>
  A whole number of units rounded to binary32: the magnitude keeps its 24 leading bits,
  rounded to nearest with ties to even; the bit pattern of the magnitude is the mantissa
  plus the shift in the exponent field (a mantissa that rounds up to \<open>2\<^sup>2\<^sup>4\<close> carries
  into the exponent); a magnitude that reaches the exponent field 255 is infinity.
\<close>

definition f32_round :: "int \<Rightarrow> f32" where
  "f32_round n =
     (let a = nat \<bar>n\<bar>;
          sh = shift_of a;
          q = a div 2 ^ sh;
          r = a mod 2 ^ sh;
          q' = (if 2 ^ sh < 2 * r \<or> (2 * r = 2 ^ sh \<and> odd q) then q + 1 else q);
          b = sh * 2 ^ 23 + q';
          m = (if 255 * 2 ^ 23 \<le> b then 255 * 2 ^ 23 else b)
      in word_of_nat (if n < 0 then 2 ^ 31 + m else m))"

text \<open>
  The sum. A NaN operand gives that NaN, made quiet (the first operand's when both are);
  infinities of opposite sign give the default NaN \<^verbatim>\<open>0xFFC00000\<close>; an infinity and a
  finite value give the infinity; an exact sum of zero is \<open>-0\<close> when both operands are
  negative (both are \<open>-0\<close> then) and \<open>+0\<close> otherwise; any other sum is rounded.
\<close>

definition f32_add :: "f32 \<Rightarrow> f32 \<Rightarrow> f32" where
  "f32_add x y =
     (if f32_is_nan x then x OR 0x00400000
      else if f32_is_nan y then y OR 0x00400000
      else
        (case (f32_units x, f32_units y) of
           (None, None) \<Rightarrow> if x = y then x else 0xFFC00000
         | (None, Some v) \<Rightarrow> x
         | (Some u, None) \<Rightarrow> y
         | (Some u, Some v) \<Rightarrow>
             if u + v = 0 then (if f32_sign x \<and> f32_sign y then 0x80000000 else 0)
             else f32_round (u + v)))"

text \<open>A whole number of units that binary32 holds exactly: rounding gives it back.\<close>

definition representable :: "int \<Rightarrow> bool" where
  "representable n = (f32_units (f32_round n) = Some n)"

subsection \<open>The registers of \<^verbatim>\<open>Sum\<close>\<close>

datatype 'a m128 = M128 'a 'a 'a 'a

fun mm256_castps256_ps128 :: "'a m256 \<Rightarrow> 'a m128" where
  "mm256_castps256_ps128 (M256 x0 x1 x2 x3 x4 x5 x6 x7) = M128 x0 x1 x2 x3"

text \<open>\<^verbatim>\<open>_mm256_extractf128_ps(v, 1)\<close>: the upper half.\<close>

fun mm256_extractf128_ps_1 :: "'a m256 \<Rightarrow> 'a m128" where
  "mm256_extractf128_ps_1 (M256 x0 x1 x2 x3 x4 x5 x6 x7) = M128 x4 x5 x6 x7"

fun mm_add_ps :: "f32 m128 \<Rightarrow> f32 m128 \<Rightarrow> f32 m128" where
  "mm_add_ps (M128 a0 a1 a2 a3) (M128 b0 b1 b2 b3) =
     M128 (f32_add a0 b0) (f32_add a1 b1) (f32_add a2 b2) (f32_add a3 b3)"

fun mm_hadd_ps :: "f32 m128 \<Rightarrow> f32 m128 \<Rightarrow> f32 m128" where
  "mm_hadd_ps (M128 a0 a1 a2 a3) (M128 b0 b1 b2 b3) =
     M128 (f32_add a0 a1) (f32_add a2 a3) (f32_add b0 b1) (f32_add b2 b3)"

fun mm_cvtss_f32 :: "'a m128 \<Rightarrow> 'a" where
  "mm_cvtss_f32 (M128 a0 a1 a2 a3) = a0"

definition Sum :: "Avx2_32_Float \<Rightarrow> f32" where
  "Sum val =
     (let vlow = mm256_castps256_ps128 (f_data val);
          vhigh = mm256_extractf128_ps_1 (f_data val);
          sum = mm_add_ps vlow vhigh;
          sum1 = mm_hadd_ps sum sum;
          sum2 = mm_hadd_ps sum1 sum1
      in mm_cvtss_f32 sum2)"

text \<open>
  The sum of the eight lanes as numbers, in units of \<open>2\<^sup>-\<^sup>1\<^sup>4\<^sup>9\<close>: it exists when every
  lane is finite.
\<close>

fun sum_units :: "int option list \<Rightarrow> int option" where
  "sum_units [] = Some 0"
| "sum_units (None # us) = None"
| "sum_units (Some u # us) = (case sum_units us of None \<Rightarrow> None | Some s \<Rightarrow> Some (u + s))"

definition exact_sum :: "Avx2_32_Float \<Rightarrow> int option" where
  "exact_sum val = sum_units (map f32_units (to_array (f_data val)))"

section \<open>The objective wrapper of the C bridge\<close>

text \<open>
  \<^verbatim>\<open>bridge_c.h\<close>. A pointer is \<open>NULL\<close> or an address. \<^verbatim>\<open>BoolEbm\<close>, \<^verbatim>\<open>LinkEbm\<close> and
  \<^verbatim>\<open>ErrorEbm\<close> are declared in \<^verbatim>\<open>libebm.h\<close>, which is not among the given sources: the
  model names the values the sources use (\<^verbatim>\<open>EBM_FALSE\<close>, \<^verbatim>\<open>Link_ERROR\<close>,
  \<^verbatim>\<open>Error_None\<close>) and keeps the others apart from them. A \<^verbatim>\<open>double\<close> is its binary64
  bit pattern, \<^verbatim>\<open>0.0\<close> being the pattern of all zeros; a \<^verbatim>\<open>size_t\<close> is a 64-bit word.
\<close>

datatype ptr = NULL | Addr nat

datatype BoolEbm = EBM_FALSE | EBM_TRUE

datatype LinkEbm = Link_ERROR | Link_Tag nat

type_synonym f64 = "64 word"
type_synonym size_t = "64 word"

record ObjectiveWrapper =
  m_pApplyUpdateC :: ptr
  m_pFinishMetricC :: ptr
  m_pCheckTargetsC :: ptr
  m_pBinSumsBoostingC :: ptr
  m_pBinSumsInteractionC :: ptr
  m_pObjective :: ptr
  m_bMaximizeMetric :: BoolEbm
  m_linkFunction :: LinkEbm
  m_linkParam :: f64
  m_learningRateAdjustmentDifferentialPrivacy :: f64
  m_learningRateAdjustmentGradientBoosting :: f64
  m_learningRateAdjustmentHessianBoosting :: f64
  m_gainAdjustmentGradientBoosting :: f64
  m_gainAdjustmentHessianBoosting :: f64
  m_gradientConstant :: f64
  m_hessianConstant :: f64
  m_bObjectiveHasHessian :: BoolEbm
  m_bRmse :: BoolEbm
  m_cSIMDPack :: size_t
  m_cFloatBytes :: size_t
  m_cUIntBytes :: size_t
  m_pFunctionPointersCpp :: ptr

definition InitializeObjectiveWrapperUnfailing :: "ObjectiveWrapper \<Rightarrow> ObjectiveWrapper" where
  "InitializeObjectiveWrapperUnfailing pObjectiveWrapper =
     pObjectiveWrapper
       \<lparr> m_pApplyUpdateC := NULL,
         m_pFinishMetricC := NULL,
         m_pCheckTargetsC := NULL,
         m_pBinSumsBoostingC := NULL,
         m_pBinSumsInteractionC := NULL,
         m_pObjective := NULL,
         m_bMaximizeMetric := EBM_FALSE,
         m_linkFunction := Link_ERROR,
         m_linkParam := 0,
         m_learningRateAdjustmentDifferentialPrivacy := 0,
         m_learningRateAdjustmentGradientBoosting := 0,
         m_learningRateAdjustmentHessianBoosting := 0,
         m_gainAdjustmentGradientBoosting := 0,
         m_gainAdjustmentHessianBoosting := 0,
         m_gradientConstant := 0,
         m_hessianConstant := 0,
         m_bObjectiveHasHessian := EBM_FALSE,
         m_bRmse := EBM_FALSE,
         m_cSIMDPack := 0,
         m_cFloatBytes := 0,
         m_cUIntBytes := 0,
         m_pFunctionPointersCpp := NULL \<rparr>"

subsection \<open>The C heap\<close>

text \<open>
  The heap is the set of the addresses of the blocks that \<^verbatim>\<open>malloc\<close> has returned and
  \<^verbatim>\<open>free\<close> has not yet released. \<^verbatim>\<open>free(NULL)\<close> does nothing. Freeing an address that
  is not live (a second free, or a pointer that never came from \<^verbatim>\<open>malloc\<close>) is
  undefined behaviour: the result is \<open>None\<close>.
\<close>

type_synonym heap = "nat set"

definition free :: "heap \<Rightarrow> ptr \<Rightarrow> heap option" where
  "free h p =
     (case p of
        NULL \<Rightarrow> Some h
      | Addr a \<Rightarrow> if a \<in> h then Some (h - {a}) else None)"

text \<open>The blocks a pointer stands for: none for \<open>NULL\<close>.\<close>

fun blocks :: "ptr \<Rightarrow> nat set" where
  "blocks NULL = {}"
| "blocks (Addr a) = {a}"

text \<open>
  The wrapper is reached through the pointer \<^verbatim>\<open>pObjectiveWrapper\<close>; the function returns
  the heap and the wrapper as it leaves them.
\<close>

definition FreeObjectiveWrapperInternals ::
  "heap \<times> ObjectiveWrapper \<Rightarrow> (heap \<times> ObjectiveWrapper) option" where
  "FreeObjectiveWrapperInternals st =
     (case st of (h, pObjectiveWrapper) \<Rightarrow>
        (case free h (m_pObjective pObjectiveWrapper) of
           None \<Rightarrow> None
         | Some h1 \<Rightarrow>
             (case free h1 (m_pFunctionPointersCpp pObjectiveWrapper) of
                None \<Rightarrow> None
              | Some h2 \<Rightarrow> Some (h2, pObjectiveWrapper))))"

subsection \<open>Creating the binding\<close>




subsection \<open>The callees, from the specification\<close>












section \<open>Values to run the functions on\<close>

text \<open>
  A wrapper as it may lie in memory before it is initialised, an objective, the entry
  points of a backend, a registry and a configuration.
\<close>

definition stale_wrapper :: ObjectiveWrapper where
  "stale_wrapper =
     \<lparr> m_pApplyUpdateC = Addr 4096, m_pFinishMetricC = Addr 4100, m_pCheckTargetsC = NULL,
       m_pBinSumsBoostingC = Addr 4108, m_pBinSumsInteractionC = Addr 4112,
       m_pObjective = Addr 3, m_bMaximizeMetric = EBM_TRUE, m_linkFunction = Link_Tag 2,
       m_linkParam = 7, m_learningRateAdjustmentDifferentialPrivacy = 1,
       m_learningRateAdjustmentGradientBoosting = 2,
       m_learningRateAdjustmentHessianBoosting = 3,
       m_gainAdjustmentGradientBoosting = 4, m_gainAdjustmentHessianBoosting = 5,
       m_gradientConstant = 6, m_hessianConstant = 8,
       m_bObjectiveHasHessian = EBM_TRUE, m_bRmse = EBM_TRUE,
       m_cSIMDPack = 8, m_cFloatBytes = 4, m_cUIntBytes = 4,
       m_pFunctionPointersCpp = Addr 5 \<rparr>"







section \<open>Sign-bit operations\<close>

lemma xor_sign_flip: "(w :: u32) XOR 0x80000000 = flip_bit 31 w"
  by (simp add: flip_bit_eq_xor)

lemma sign_mask_not: "(0x7FFFFFFF :: u32) = NOT (push_bit 31 1)"
  by simp

lemma and_mask_unset: "(w :: u32) AND 0x7FFFFFFF = unset_bit 31 w"
  by (simp only: sign_mask_not unset_bit_eq_and_not)

lemma neg_lanes: "neg (Avx2_32_Float v) = Avx2_32_Float (map_m256 (flip_bit 31) v)"
  by (cases v)
    (simp add: neg_def mm256_castsi256_ps_def mm256_castps_si256_def mm256_xor_si256_def
      mm256_set1_epi32_def xor_sign_flip)

lemma Abs_lanes: "Abs (Avx2_32_Float v) = Avx2_32_Float (map_m256 (unset_bit 31) v)"
  by (cases v)
    (simp add: Abs_def mm256_castsi256_ps_def mm256_and_ps_def mm256_set1_epi32_def
      and_mask_unset)

lemma flip_flip: "flip_bit 31 (flip_bit 31 (w :: u32)) = w"
  by (rule bit_eqI) (auto simp add: bit_simps)

lemma unset_unset: "unset_bit 31 (unset_bit 31 (w :: u32)) = unset_bit 31 w"
  by (rule bit_eqI) (auto simp add: bit_simps)

lemma unset_flip: "unset_bit 31 (flip_bit 31 (w :: u32)) = unset_bit 31 w"
  by (rule bit_eqI) (auto simp add: bit_simps)

text \<open>
  C9. Unary negation flips exactly bit 31 (the sign bit) of each lane and \<^verbatim>\<open>Abs\<close> clears
  exactly bit 31 of each lane, every other bit staying as it was. Hence, for every lane
  group \<open>v\<close> (every bit pattern, so zeros, infinities and NaNs too), \<open>-(-v) = v\<close>,
  \<open>Abs (Abs v) = Abs v\<close> and \<open>Abs (-v) = Abs v\<close>, bit for bit.
\<close>

theorem neg_Abs_sign_bit:
  "neg v = Avx2_32_Float (map_m256 (flip_bit 31) (f_data v))
   \<and> Abs v = Avx2_32_Float (map_m256 (unset_bit 31) (f_data v))
   \<and> neg (neg v) = v
   \<and> Abs (Abs v) = Abs v
   \<and> Abs (neg v) = Abs v"
proof (cases v)
  case (Avx2_32_Float r)
  show ?thesis
    unfolding Avx2_32_Float
    by (cases r) (simp add: neg_lanes Abs_lanes flip_flip unset_unset unset_flip)
qed

section \<open>Lanes\<close>

lemma k_cSIMDPack_8: "k_cSIMDPack = 8"
  by (simp add: k_cSIMDPack_def k_cSIMDShift_def)

lemma upt_8: "[0..<8] = [0, 1, 2, 3, 4, 5, 6, 7]"
  by (simp add: upt_rec)

lemma less_8_cases:
  "k < 8 \<Longrightarrow> k = 0 \<or> k = 1 \<or> k = 2 \<or> k = 3 \<or> k = 4 \<or> k = 5 \<or> k = 6 \<or> k = (7::nat)"
  by arith

lemma lane_simps:
  "lane (M256 x0 x1 x2 x3 x4 x5 x6 x7) 0 = x0"
  "lane (M256 x0 x1 x2 x3 x4 x5 x6 x7) 1 = x1"
  "lane (M256 x0 x1 x2 x3 x4 x5 x6 x7) 2 = x2"
  "lane (M256 x0 x1 x2 x3 x4 x5 x6 x7) 3 = x3"
  "lane (M256 x0 x1 x2 x3 x4 x5 x6 x7) 4 = x4"
  "lane (M256 x0 x1 x2 x3 x4 x5 x6 x7) 5 = x5"
  "lane (M256 x0 x1 x2 x3 x4 x5 x6 x7) 6 = x6"
  "lane (M256 x0 x1 x2 x3 x4 x5 x6 x7) 7 = x7"
  by (simp_all add: lane_def)

lemma Float_exhaust:
  obtains x0 x1 x2 x3 x4 x5 x6 x7 where "v = Avx2_32_Float (M256 x0 x1 x2 x3 x4 x5 x6 x7)"
  by (metis Avx2_32_Float.exhaust m256.exhaust)

lemma Int_exhaust:
  obtains x0 x1 x2 x3 x4 x5 x6 x7 where "v = Avx2_32_Int (M256 x0 x1 x2 x3 x4 x5 x6 x7)"
  by (metis Avx2_32_Int.exhaust m256.exhaust)

section \<open>Execute and ApplyFunc visit the lanes in order\<close>

lemma Int_Execute_foldl:
  "Int_Execute func val s = foldl (\<lambda>s k. func k (lane (i_data val) k) s) s [0..<8]"
proof (cases val)
  case (Avx2_32_Int r)
  then show ?thesis
    by (cases r) (simp add: Int_Execute_def lane_def upt_8)
qed

lemma Float_Execute0_foldl:
  "Float_Execute0 func s = foldl (\<lambda>s k. func k s) s [0..<8]"
  by (simp add: Float_Execute0_def upt_8)

lemma Float_Execute1_foldl:
  "Float_Execute1 func val s = foldl (\<lambda>s k. func k (lane (f_data val) k) s) s [0..<8]"
proof (cases val)
  case (Avx2_32_Float r)
  then show ?thesis
    by (cases r) (simp add: Float_Execute1_def lane_def upt_8)
qed

lemma Float_Execute2_foldl:
  "Float_Execute2 func val0 val1 s
     = foldl (\<lambda>s k. func k (lane (f_data val0) k) (lane (f_data val1) k) s) s [0..<8]"
proof (cases val0)
  case a: (Avx2_32_Float r0)
  show ?thesis
  proof (cases val1)
    case b: (Avx2_32_Float r1)
    show ?thesis
      unfolding a b
      by (cases r0, cases r1) (simp add: Float_Execute2_def lane_def upt_8)
  qed
qed

lemma Int_Execute_trace:
  "Int_Execute (\<lambda>k x t. t @ [(k, x)]) val [] = map (\<lambda>k. (k, lane (i_data val) k)) [0..<8]"
  by (simp add: Int_Execute_foldl upt_8)

lemma Float_Execute1_trace:
  "Float_Execute1 (\<lambda>k x t. t @ [(k, x)]) val [] = map (\<lambda>k. (k, lane (f_data val) k)) [0..<8]"
  by (simp add: Float_Execute1_foldl upt_8)

lemma ApplyFunc_map_thread:
  "ApplyFunc func val s
     = (case map_thread func (to_array (f_data val)) s of
          (ys, s') \<Rightarrow> (Avx2_32_Float (of_array ys), s'))"
proof (cases val)
  case (Avx2_32_Float r)
  then show ?thesis
    by (cases r) (simp add: ApplyFunc_def of_array_def split: prod.splits)
qed

lemma ApplyFunc_pure:
  "ApplyFunc (\<lambda>x s. (g x, s)) val s = (Avx2_32_Float (map_m256 g (f_data val)), s)"
proof (cases val)
  case (Avx2_32_Float r)
  then show ?thesis
    by (cases r) (simp add: ApplyFunc_def of_array_def)
qed

text \<open>
  C3. For every lane group and every callback, \<^verbatim>\<open>Execute\<close> of either lane type calls the
  callback once for each lane, lane 0 first and lane 7 last, with the lane position and
  that lane's scalar (the scalars of both registers for the overload with two; the
  position alone for the overload with none): its effect is that of the calls folded
  over the positions 0 to 7 in order, and a callback that records its arguments records
  \<open>(0, lane 0), ..., (7, lane 7)\<close>. \<^verbatim>\<open>ApplyFunc\<close> calls its callback on the scalars of
  lanes 0 to 7 in that order and returns the register of the results: lane \<open>i\<close> of the
  result is the callback applied to lane \<open>i\<close> of the input.
\<close>

theorem Execute_ApplyFunc_lanes:
  "Int_Execute func val s = foldl (\<lambda>s k. func k (lane (i_data val) k) s) s [0..<8]
   \<and> Float_Execute0 func0 s = foldl (\<lambda>s k. func0 k s) s [0..<8]
   \<and> Float_Execute1 func1 fval s = foldl (\<lambda>s k. func1 k (lane (f_data fval) k) s) s [0..<8]
   \<and> Float_Execute2 func2 fval fval1 s
       = foldl (\<lambda>s k. func2 k (lane (f_data fval) k) (lane (f_data fval1) k) s) s [0..<8]
   \<and> Int_Execute (\<lambda>k x t. t @ [(k, x)]) val [] = map (\<lambda>k. (k, lane (i_data val) k)) [0..<8]
   \<and> Float_Execute1 (\<lambda>k x t. t @ [(k, x)]) fval [] = map (\<lambda>k. (k, lane (f_data fval) k)) [0..<8]
   \<and> ApplyFunc afunc fval s
       = (case map_thread afunc (to_array (f_data fval)) s of
            (ys, s') \<Rightarrow> (Avx2_32_Float (of_array ys), s'))
   \<and> ApplyFunc (\<lambda>x s. (g x, s)) fval s = (Avx2_32_Float (map_m256 g (f_data fval)), s)"
  by (intro conjI)
    (fact Int_Execute_foldl Float_Execute0_foldl Float_Execute1_foldl Float_Execute2_foldl
      Int_Execute_trace Float_Execute1_trace ApplyFunc_map_thread ApplyFunc_pure)+

section \<open>Comparison and selection\<close>

lemma blend_mask:
  "(if bit (if c then 0xFFFFFFFF else (0::u32)) 31 then y else x) = (if c then y else x)"
  by simp

lemma IfLess_unfold:
  "IfLess (Avx2_32_Float (M256 a0 a1 a2 a3 a4 a5 a6 a7)) (Avx2_32_Float (M256 b0 b1 b2 b3 b4 b5 b6 b7))
      (Avx2_32_Float (M256 t0 t1 t2 t3 t4 t5 t6 t7)) (Avx2_32_Float (M256 f0 f1 f2 f3 f4 f5 f6 f7)) =
    Avx2_32_Float (M256
      (if f32_less a0 b0 then t0 else f0) (if f32_less a1 b1 then t1 else f1)
      (if f32_less a2 b2 then t2 else f2) (if f32_less a3 b3 then t3 else f3)
      (if f32_less a4 b4 then t4 else f4) (if f32_less a5 b5 then t5 else f5)
      (if f32_less a6 b6 then t6 else f6) (if f32_less a7 b7 then t7 else f7))"
  unfolding IfLess_def mm256_cmp_ps_LT_OQ_def Let_def Avx2_32_Float.sel map2_m256.simps
    mm256_blendv_ps.simps blend_mask
  by (rule refl)

lemma IfEqual_unfold:
  "IfEqual (Avx2_32_Int (M256 a0 a1 a2 a3 a4 a5 a6 a7)) (Avx2_32_Int (M256 b0 b1 b2 b3 b4 b5 b6 b7))
      (Avx2_32_Float (M256 t0 t1 t2 t3 t4 t5 t6 t7)) (Avx2_32_Float (M256 f0 f1 f2 f3 f4 f5 f6 f7)) =
    Avx2_32_Float (M256
      (if a0 = b0 then t0 else f0) (if a1 = b1 then t1 else f1)
      (if a2 = b2 then t2 else f2) (if a3 = b3 then t3 else f3)
      (if a4 = b4 then t4 else f4) (if a5 = b5 then t5 else f5)
      (if a6 = b6 then t6 else f6) (if a7 = b7 then t7 else f7))"
  unfolding IfEqual_def mm256_cmpeq_epi32_def mm256_castsi256_ps_def Let_def Avx2_32_Float.sel
    Avx2_32_Int.sel map2_m256.simps mm256_blendv_ps.simps blend_mask
  by (rule refl)

lemma IfLess_lane:
  assumes k: "k < 8"
  shows "lane (f_data (IfLess cmp1 cmp2 trueVal falseVal)) k =
     (if f32_less (lane (f_data cmp1) k) (lane (f_data cmp2) k)
      then lane (f_data trueVal) k else lane (f_data falseVal) k)"
proof -
  obtain a0 a1 a2 a3 a4 a5 a6 a7 where a: "cmp1 = Avx2_32_Float (M256 a0 a1 a2 a3 a4 a5 a6 a7)"
    by (rule Float_exhaust)
  obtain b0 b1 b2 b3 b4 b5 b6 b7 where b: "cmp2 = Avx2_32_Float (M256 b0 b1 b2 b3 b4 b5 b6 b7)"
    by (rule Float_exhaust)
  obtain t0 t1 t2 t3 t4 t5 t6 t7 where t: "trueVal = Avx2_32_Float (M256 t0 t1 t2 t3 t4 t5 t6 t7)"
    by (rule Float_exhaust)
  obtain f0 f1 f2 f3 f4 f5 f6 f7 where f: "falseVal = Avx2_32_Float (M256 f0 f1 f2 f3 f4 f5 f6 f7)"
    by (rule Float_exhaust)
  from less_8_cases [OF k] show ?thesis
    unfolding a b t f IfLess_unfold Avx2_32_Float.sel
    by (elim disjE) (simp_all only: lane_simps)
qed

lemma IfEqual_lane:
  assumes k: "k < 8"
  shows "lane (f_data (IfEqual cmp1 cmp2 trueVal falseVal)) k =
     (if lane (i_data cmp1) k = lane (i_data cmp2) k
      then lane (f_data trueVal) k else lane (f_data falseVal) k)"
proof -
  obtain a0 a1 a2 a3 a4 a5 a6 a7 where a: "cmp1 = Avx2_32_Int (M256 a0 a1 a2 a3 a4 a5 a6 a7)"
    by (rule Int_exhaust)
  obtain b0 b1 b2 b3 b4 b5 b6 b7 where b: "cmp2 = Avx2_32_Int (M256 b0 b1 b2 b3 b4 b5 b6 b7)"
    by (rule Int_exhaust)
  obtain t0 t1 t2 t3 t4 t5 t6 t7 where t: "trueVal = Avx2_32_Float (M256 t0 t1 t2 t3 t4 t5 t6 t7)"
    by (rule Float_exhaust)
  obtain f0 f1 f2 f3 f4 f5 f6 f7 where f: "falseVal = Avx2_32_Float (M256 f0 f1 f2 f3 f4 f5 f6 f7)"
    by (rule Float_exhaust)
  from less_8_cases [OF k] show ?thesis
    unfolding a b t f IfEqual_unfold Avx2_32_Float.sel Avx2_32_Int.sel
    by (elim disjE) (simp_all only: lane_simps)
qed

text \<open>
  C4. For all comparison lane groups and all value lane groups, lane \<open>k\<close> of \<^verbatim>\<open>IfLess\<close>
  is lane \<open>k\<close> of \<open>trueVal\<close> when lane \<open>k\<close> of \<open>cmp1\<close> is less than lane \<open>k\<close> of
  \<open>cmp2\<close> (the ordered comparison of binary32, false when either is a NaN), and lane
  \<open>k\<close> of \<open>falseVal\<close> otherwise; lane \<open>k\<close> of \<^verbatim>\<open>IfEqual\<close> is selected in the same way
  by the equality of the integer lanes.
\<close>

theorem IfLess_IfEqual_select:
  assumes "k < 8"
  shows "lane (f_data (IfLess cmp1 cmp2 trueVal falseVal)) k =
           (if f32_less (lane (f_data cmp1) k) (lane (f_data cmp2) k)
            then lane (f_data trueVal) k else lane (f_data falseVal) k)
       \<and> lane (f_data (IfEqual icmp1 icmp2 trueVal falseVal)) k =
           (if lane (i_data icmp1) k = lane (i_data icmp2) k
            then lane (f_data trueVal) k else lane (f_data falseVal) k)"
  using assms by (simp only: IfLess_lane IfEqual_lane simp_thms)

text \<open>
  At lane 2: 1.0 is less than 2.0, so \<^verbatim>\<open>IfLess\<close> takes the true value, and the integer
  lanes 7 and 9 differ, so \<^verbatim>\<open>IfEqual\<close> takes the false value. At lane 3 a NaN is
  compared, so \<^verbatim>\<open>IfLess\<close> takes the false value, and the integer lanes are both 4.
\<close>

theorem IfLess_IfEqual_select_witness:
  "(2::nat) < 8 \<and> (3::nat) < 8
   \<and> lane (f_data (IfLess
        (Avx2_32_Float (M256 0 0 0x3F800000 0x7FC00000 0 0 0 0))
        (Avx2_32_Float (M256 0 0 0x40000000 0x3F800000 0 0 0 0))
        (Avx2_32_Float (M256 10 11 12 13 14 15 16 17))
        (Avx2_32_Float (M256 20 21 22 23 24 25 26 27)))) 2 = 12
   \<and> lane (f_data (IfEqual
        (Avx2_32_Int (M256 0 1 7 4 0 0 0 0))
        (Avx2_32_Int (M256 0 1 9 4 0 0 0 0))
        (Avx2_32_Float (M256 10 11 12 13 14 15 16 17))
        (Avx2_32_Float (M256 20 21 22 23 24 25 26 27)))) 2 = 22
   \<and> lane (f_data (IfLess
        (Avx2_32_Float (M256 0 0 0x3F800000 0x7FC00000 0 0 0 0))
        (Avx2_32_Float (M256 0 0 0x40000000 0x3F800000 0 0 0 0))
        (Avx2_32_Float (M256 10 11 12 13 14 15 16 17))
        (Avx2_32_Float (M256 20 21 22 23 24 25 26 27)))) 3 = 23
   \<and> lane (f_data (IfEqual
        (Avx2_32_Int (M256 0 1 7 4 0 0 0 0))
        (Avx2_32_Int (M256 0 1 9 4 0 0 0 0))
        (Avx2_32_Float (M256 10 11 12 13 14 15 16 17))
        (Avx2_32_Float (M256 20 21 22 23 24 25 26 27)))) 3 = 13"
proof -
  have k2: "(2::nat) < 8" and k3: "(3::nat) < 8" by simp_all
  show ?thesis
    using
      IfLess_IfEqual_select [OF k2,
        of "Avx2_32_Float (M256 0 0 0x3F800000 0x7FC00000 0 0 0 0)"
           "Avx2_32_Float (M256 0 0 0x40000000 0x3F800000 0 0 0 0)"
           "Avx2_32_Float (M256 10 11 12 13 14 15 16 17)"
           "Avx2_32_Float (M256 20 21 22 23 24 25 26 27)"
           "Avx2_32_Int (M256 0 1 7 4 0 0 0 0)"
           "Avx2_32_Int (M256 0 1 9 4 0 0 0 0)"]
      IfLess_IfEqual_select [OF k3,
        of "Avx2_32_Float (M256 0 0 0x3F800000 0x7FC00000 0 0 0 0)"
           "Avx2_32_Float (M256 0 0 0x40000000 0x3F800000 0 0 0 0)"
           "Avx2_32_Float (M256 10 11 12 13 14 15 16 17)"
           "Avx2_32_Float (M256 20 21 22 23 24 25 26 27)"
           "Avx2_32_Int (M256 0 1 7 4 0 0 0 0)"
           "Avx2_32_Int (M256 0 1 9 4 0 0 0 0)"]
    by (simp add: lane_simps f32_less_def f32_is_nan_def f32_order_def)
qed

section \<open>The horizontal sum\<close>

lemma unat_and_low31: "unat ((x :: u32) AND 0x7FFFFFFF) = unat x mod 2 ^ 31"
proof -
  have m: "(0x7FFFFFFF :: u32) = mask 31"
    by (simp add: mask_eq_exp_minus_1)
  have "unat (x AND mask 31) = unat (take_bit 31 x)"
    by (simp only: take_bit_eq_mask)
  also have "\<dots> = take_bit 31 (unat x)"
    by (rule unsigned_take_bit_eq)
  also have "\<dots> = unat x mod 2 ^ 31"
    by (rule take_bit_eq_mod)
  finally show ?thesis
    by (simp only: m)
qed

lemma exp_of_low31: "(a::nat) mod 2 ^ 31 div 2 ^ 23 = a div 2 ^ 23 mod 256"
  using drop_bit_take_bit [of 23 31 a] by (simp add: take_bit_eq_mod drop_bit_eq_div)

lemma nan_exp: "f32_is_nan x \<Longrightarrow> f32_exp x = 255"
proof -
  assume "f32_is_nan x"
  then have "unat (0x7F800000 :: u32) < unat (x AND 0x7FFFFFFF)"
    unfolding f32_is_nan_def by (simp only: word_less_nat_alt)
  then have lo: "255 * 2 ^ 23 < unat x mod 2 ^ 31"
    by (simp add: unat_and_low31)
  have hi: "unat x mod 2 ^ 31 < 256 * 2 ^ 23"
    by simp
  have "(unat x mod 2 ^ 31) div 2 ^ 23 = 255"
    using lo hi by simp
  then show ?thesis
    by (simp only: f32_exp_def exp_of_low31)
qed

lemma finite_not_nan: "f32_units x = Some u \<Longrightarrow> \<not> f32_is_nan x"
  by (auto simp add: f32_units_def dest: nan_exp split: if_splits)

lemma units_zero: "f32_units 0 = Some 0" "f32_units 0x80000000 = Some 0"
  by (simp_all add: f32_units_def f32_exp_def f32_mag_def f32_frac_def)

lemma add_exact:
  assumes "f32_units a = Some u" and "f32_units b = Some v" and "representable (u + v)"
  shows "f32_units (f32_add a b) = Some (u + v)"
  using assms finite_not_nan [OF assms(1)] finite_not_nan [OF assms(2)]
  by (simp add: f32_add_def representable_def units_zero)

lemma Sum_tree:
  "Sum (Avx2_32_Float (M256 x0 x1 x2 x3 x4 x5 x6 x7)) =
     f32_add (f32_add (f32_add x0 x4) (f32_add x1 x5)) (f32_add (f32_add x2 x6) (f32_add x3 x7))"
  by (simp add: Sum_def)

lemma sum_units_8:
  "sum_units [Some u0, Some u1, Some u2, Some u3, Some u4, Some u5, Some u6, Some u7]
     = Some (u0 + u1 + u2 + u3 + u4 + u5 + u6 + u7)"
  by simp

lemma Sum_exact:
  assumes lanes: "map f32_units (to_array (f_data val)) =
                    [Some u0, Some u1, Some u2, Some u3, Some u4, Some u5, Some u6, Some u7]"
    and low: "representable (u0 + u4)" "representable (u1 + u5)"
             "representable (u2 + u6)" "representable (u3 + u7)"
    and mid: "representable ((u0 + u4) + (u1 + u5))" "representable ((u2 + u6) + (u3 + u7))"
    and top: "representable (((u0 + u4) + (u1 + u5)) + ((u2 + u6) + (u3 + u7)))"
  shows "exact_sum val = Some (u0 + u1 + u2 + u3 + u4 + u5 + u6 + u7)
       \<and> f32_units (Sum val) = exact_sum val"
proof -
  obtain x0 x1 x2 x3 x4 x5 x6 x7 where v: "val = Avx2_32_Float (M256 x0 x1 x2 x3 x4 x5 x6 x7)"
    by (rule Float_exhaust)
  from lanes have x: "f32_units x0 = Some u0" "f32_units x1 = Some u1" "f32_units x2 = Some u2"
    "f32_units x3 = Some u3" "f32_units x4 = Some u4" "f32_units x5 = Some u5"
    "f32_units x6 = Some u6" "f32_units x7 = Some u7"
    by (simp_all add: v)
  have tree: "Sum val =
      f32_add (f32_add (f32_add x0 x4) (f32_add x1 x5)) (f32_add (f32_add x2 x6) (f32_add x3 x7))"
    by (simp only: v Sum_tree)
  have e: "exact_sum val = Some (u0 + u1 + u2 + u3 + u4 + u5 + u6 + u7)"
    unfolding exact_sum_def lanes by (rule sum_units_8)
  note s04 = add_exact [OF x(1) x(5) low(1)]
  note s15 = add_exact [OF x(2) x(6) low(2)]
  note s26 = add_exact [OF x(3) x(7) low(3)]
  note s37 = add_exact [OF x(4) x(8) low(4)]
  note l = add_exact [OF s04 s15 mid(1)]
  note r = add_exact [OF s26 s37 mid(2)]
  note t = add_exact [OF l r top]
  have "f32_units (Sum val) = Some (u0 + u1 + u2 + u3 + u4 + u5 + u6 + u7)"
    unfolding tree using t by (simp add: algebra_simps)
  with e show ?thesis
    by simp
qed

lemma Sum_tree_lanes:
  "Sum val =
     (let x = lane (f_data val)
      in f32_add (f32_add (f32_add (x 0) (x 4)) (f32_add (x 1) (x 5)))
                 (f32_add (f32_add (x 2) (x 6)) (f32_add (x 3) (x 7))))"
proof -
  obtain x0 x1 x2 x3 x4 x5 x6 x7 where v: "val = Avx2_32_Float (M256 x0 x1 x2 x3 x4 x5 x6 x7)"
    by (rule Float_exhaust)
  show ?thesis
    by (simp add: v Sum_tree lane_def)
qed

text \<open>
  C5, with the rounding written in. For every float lane group, \<^verbatim>\<open>Sum\<close> returns one
  scalar: the result of the pairwise tree of seven binary32 additions, the low half plus
  the high half lane by lane and then two horizontal additions, in which each of the
  eight lanes enters once. When the lanes are finite and each of the seven additions is
  exact (its exact result is a binary32 value), that scalar is the sum of the eight
  lanes.
\<close>

theorem Sum_pairwise_tree:
  "Sum val =
     (let x = lane (f_data val)
      in f32_add (f32_add (f32_add (x 0) (x 4)) (f32_add (x 1) (x 5)))
                 (f32_add (f32_add (x 2) (x 6)) (f32_add (x 3) (x 7))))
   \<and> (map f32_units (to_array (f_data val)) =
          [Some u0, Some u1, Some u2, Some u3, Some u4, Some u5, Some u6, Some u7]
        \<and> representable (u0 + u4) \<and> representable (u1 + u5)
        \<and> representable (u2 + u6) \<and> representable (u3 + u7)
        \<and> representable ((u0 + u4) + (u1 + u5)) \<and> representable ((u2 + u6) + (u3 + u7))
        \<and> representable (((u0 + u4) + (u1 + u5)) + ((u2 + u6) + (u3 + u7)))
      \<longrightarrow> exact_sum val = Some (u0 + u1 + u2 + u3 + u4 + u5 + u6 + u7)
          \<and> f32_units (Sum val) = exact_sum val)"
proof (intro conjI impI)
  show "Sum val =
     (let x = lane (f_data val)
      in f32_add (f32_add (f32_add (x 0) (x 4)) (f32_add (x 1) (x 5)))
                 (f32_add (f32_add (x 2) (x 6)) (f32_add (x 3) (x 7))))"
    by (rule Sum_tree_lanes)
next
  assume h: "map f32_units (to_array (f_data val)) =
          [Some u0, Some u1, Some u2, Some u3, Some u4, Some u5, Some u6, Some u7]
        \<and> representable (u0 + u4) \<and> representable (u1 + u5)
        \<and> representable (u2 + u6) \<and> representable (u3 + u7)
        \<and> representable ((u0 + u4) + (u1 + u5)) \<and> representable ((u2 + u6) + (u3 + u7))
        \<and> representable (((u0 + u4) + (u1 + u5)) + ((u2 + u6) + (u3 + u7)))"
  then show "exact_sum val = Some (u0 + u1 + u2 + u3 + u4 + u5 + u6 + u7)"
    by (elim conjE) (rule Sum_exact [THEN conjunct1])
next
  assume h: "map f32_units (to_array (f_data val)) =
          [Some u0, Some u1, Some u2, Some u3, Some u4, Some u5, Some u6, Some u7]
        \<and> representable (u0 + u4) \<and> representable (u1 + u5)
        \<and> representable (u2 + u6) \<and> representable (u3 + u7)
        \<and> representable ((u0 + u4) + (u1 + u5)) \<and> representable ((u2 + u6) + (u3 + u7))
        \<and> representable (((u0 + u4) + (u1 + u5)) + ((u2 + u6) + (u3 + u7)))"
  then show "f32_units (Sum val) = exact_sum val"
    by (elim conjE) (rule Sum_exact [THEN conjunct2])
qed

lemma f32_round_shift:
  assumes "shift_of (nat \<bar>n\<bar>) = sh"
  shows "f32_round n =
     (let a = nat \<bar>n\<bar>;
          q = a div 2 ^ sh;
          r = a mod 2 ^ sh;
          q' = (if 2 ^ sh < 2 * r \<or> (2 * r = 2 ^ sh \<and> odd q) then q + 1 else q);
          b = sh * 2 ^ 23 + q';
          m = (if 255 * 2 ^ 23 \<le> b then 255 * 2 ^ 23 else b)
      in word_of_nat (if n < 0 then 2 ^ 31 + m else m))"
  unfolding f32_round_def Let_def assms by (rule refl)

lemmas f32_decode = f32_units_def f32_exp_def f32_mag_def f32_frac_def f32_sign_def

lemma shift_small: "a < 2 ^ 24 \<Longrightarrow> shift_of a = 0"
  by (simp add: shift_of.simps)

lemma shift_double: "2 ^ 23 \<le> a \<Longrightarrow> shift_of (2 * a) = Suc (shift_of a)"
  by (subst shift_of.simps) simp

lemma shift_scaled: "2 ^ 23 \<le> q \<Longrightarrow> q < 2 ^ 24 \<Longrightarrow> shift_of (q * 2 ^ k) = k"
proof (induction k)
  case 0
  then show ?case by (simp add: shift_small)
next
  case (Suc k)
  have "2 ^ 23 \<le> q * 2 ^ k"
    using Suc.prems(1) by (metis mult.right_neutral mult_le_mono one_le_numeral one_le_power)
  then have "shift_of (2 * (q * 2 ^ k)) = Suc (shift_of (q * 2 ^ k))"
    by (rule shift_double)
  with Suc show ?case
    by (simp add: mult.commute mult.left_commute)
qed

lemma f32_add_finite:
  assumes "f32_units x = Some u" and "f32_units y = Some v" and "u + v \<noteq> 0"
  shows "f32_add x y = f32_round (u + v)"
  using assms finite_not_nan [OF assms(1)] finite_not_nan [OF assms(2)]
  by (simp add: f32_add_def)

lemma representable_shift:
  assumes "shift_of (nat \<bar>n\<bar>) = sh"
    and "f32_units
      (let a = nat \<bar>n\<bar>;
          q = a div 2 ^ sh;
          r = a mod 2 ^ sh;
          q' = (if 2 ^ sh < 2 * r \<or> (2 * r = 2 ^ sh \<and> odd q) then q + 1 else q);
          b = sh * 2 ^ 23 + q';
          m = (if 255 * 2 ^ 23 \<le> b then 255 * 2 ^ 23 else b)
      in word_of_nat (if n < 0 then 2 ^ 31 + m else m)) = Some n"
  shows "representable n"
  unfolding representable_def f32_round_shift [OF assms(1)] by (rule assms(2))

lemma shift_6: "shift_of (nat \<bar>6 * 2 ^ 149\<bar>) = 128"
  by (simp add: shift_of.simps)

lemma representable_6: "representable (6 * 2 ^ 149)"
  by (rule representable_shift [OF shift_6]) (simp add: Let_def f32_decode)

lemma shift_8: "shift_of (nat \<bar>8 * 2 ^ 149\<bar>) = 129"
  by (simp add: shift_of.simps)

lemma representable_8: "representable (8 * 2 ^ 149)"
  by (rule representable_shift [OF shift_8]) (simp add: Let_def f32_decode)

lemma shift_10: "shift_of (nat \<bar>10 * 2 ^ 149\<bar>) = 129"
  by (simp add: shift_of.simps)

lemma representable_10: "representable (10 * 2 ^ 149)"
  by (rule representable_shift [OF shift_10]) (simp add: Let_def f32_decode)

lemma shift_12: "shift_of (nat \<bar>12 * 2 ^ 149\<bar>) = 129"
  by (simp add: shift_of.simps)

lemma representable_12: "representable (12 * 2 ^ 149)"
  by (rule representable_shift [OF shift_12]) (simp add: Let_def f32_decode)

lemma shift_14: "shift_of (nat \<bar>14 * 2 ^ 149\<bar>) = 129"
  by (simp add: shift_of.simps)

lemma representable_14: "representable (14 * 2 ^ 149)"
  by (rule representable_shift [OF shift_14]) (simp add: Let_def f32_decode)

lemma shift_22: "shift_of (nat \<bar>22 * 2 ^ 149\<bar>) = 130"
  by (simp add: shift_of.simps)

lemma representable_22: "representable (22 * 2 ^ 149)"
  by (rule representable_shift [OF shift_22]) (simp add: Let_def f32_decode)

lemma shift_36: "shift_of (nat \<bar>36 * 2 ^ 149\<bar>) = 131"
  by (simp add: shift_of.simps)

lemma representable_36: "representable (36 * 2 ^ 149)"
  by (rule representable_shift [OF shift_36]) (simp add: Let_def f32_decode)

lemma shift_max: "shift_of (nat \<bar>(2 ^ 24 - 1) * 2 ^ 253\<bar>) = 253"
  by (simp add: shift_of.simps)

lemma shift_2max: "shift_of (nat \<bar>(2 ^ 24 - 1) * 2 ^ 254\<bar>) = 254"
  by (simp add: shift_of.simps)

lemma shift_max_neg: "shift_of (nat \<bar>- ((2 ^ 24 - 1) * 2 ^ 253)\<bar>) = 253"
  by (simp add: shift_of.simps)

lemma shift_2max_neg: "shift_of (nat \<bar>- ((2 ^ 24 - 1) * 2 ^ 254)\<bar>) = 254"
  by (simp add: shift_of.simps)

lemma round_max: "f32_round ((2 ^ 24 - 1) * 2 ^ 253) = 0x7F7FFFFF"
  by (subst f32_round_shift [OF shift_max]) (simp add: Let_def)

lemma round_max_neg: "f32_round (- ((2 ^ 24 - 1) * 2 ^ 253)) = 0xFF7FFFFF"
  by (subst f32_round_shift [OF shift_max_neg]) (simp add: Let_def)

lemma round_2max: "f32_round ((2 ^ 24 - 1) * 2 ^ 254) = 0x7F800000"
  by (subst f32_round_shift [OF shift_2max]) (simp add: Let_def)

lemma round_2max_neg: "f32_round (- ((2 ^ 24 - 1) * 2 ^ 254)) = 0xFF800000"
  by (subst f32_round_shift [OF shift_2max_neg]) (simp add: Let_def)

lemma units_max: "f32_units 0x7F7FFFFF = Some ((2 ^ 24 - 1) * 2 ^ 253)"
  "f32_units 0xFF7FFFFF = Some (- ((2 ^ 24 - 1) * 2 ^ 253))"
  by (simp_all add: f32_decode)

lemma units_inf: "f32_units 0x7F800000 = None" "f32_units 0xFF800000 = None"
  "f32_units 0xFFC00000 = None"
  by (simp_all add: f32_decode)

lemma add_max_zero: "f32_add 0x7F7FFFFF 0 = 0x7F7FFFFF"
proof -
  have "f32_add 0x7F7FFFFF 0 = f32_round ((2 ^ 24 - 1) * 2 ^ 253 + 0)"
    by (rule f32_add_finite [OF units_max(1) units_zero(1)]) simp
  then show ?thesis
    by (simp only: add_0_right round_max)
qed

lemma add_max_neg_zero: "f32_add 0xFF7FFFFF 0 = 0xFF7FFFFF"
proof -
  have "f32_add 0xFF7FFFFF 0 = f32_round (- ((2 ^ 24 - 1) * 2 ^ 253) + 0)"
    by (rule f32_add_finite [OF units_max(2) units_zero(1)]) simp
  then show ?thesis
    by (simp only: add_0_right round_max_neg)
qed

lemma add_max_max: "f32_add 0x7F7FFFFF 0x7F7FFFFF = 0x7F800000"
proof -
  have "f32_add 0x7F7FFFFF 0x7F7FFFFF
          = f32_round ((2 ^ 24 - 1) * 2 ^ 253 + (2 ^ 24 - 1) * 2 ^ 253)"
    by (rule f32_add_finite [OF units_max(1) units_max(1)]) simp
  also have "(2 ^ 24 - 1) * 2 ^ 253 + (2 ^ 24 - 1) * 2 ^ 253 = ((2 ^ 24 - 1) * 2 ^ 254 :: int)"
    by simp
  finally show ?thesis
    by (simp only: round_2max)
qed

lemma add_max_max_neg: "f32_add 0xFF7FFFFF 0xFF7FFFFF = 0xFF800000"
proof -
  have "f32_add 0xFF7FFFFF 0xFF7FFFFF
          = f32_round (- ((2 ^ 24 - 1) * 2 ^ 253) + - ((2 ^ 24 - 1) * 2 ^ 253))"
    by (rule f32_add_finite [OF units_max(2) units_max(2)]) simp
  also have "- ((2 ^ 24 - 1) * 2 ^ 253) + - ((2 ^ 24 - 1) * 2 ^ 253)
               = (- ((2 ^ 24 - 1) * 2 ^ 254) :: int)"
    by simp
  finally show ?thesis
    by (simp only: round_2max_neg)
qed

lemma add_inf_inf_neg: "f32_add 0x7F800000 0xFF800000 = 0xFFC00000"
  by (simp add: f32_add_def f32_is_nan_def units_inf)

lemma Sum_overflow:
  "Sum (Avx2_32_Float (M256 0x7F7FFFFF 0x7F7FFFFF 0xFF7FFFFF 0xFF7FFFFF 0 0 0 0)) = 0xFFC00000"
  by (simp only: Sum_tree add_max_zero add_max_neg_zero add_max_max add_max_max_neg
      add_inf_inf_neg)

text \<open>
  The scalar is not the sum of the lanes on every input. The lanes
  \<open>FLT_MAX, FLT_MAX, -FLT_MAX, -FLT_MAX, 0, 0, 0, 0\<close> sum to zero. The tree adds the
  first two to plus infinity and the next two to minus infinity, and the sum of those
  is a NaN.
\<close>

theorem Sum_overflow_is_not_the_sum:
  "exact_sum (Avx2_32_Float (M256 0x7F7FFFFF 0x7F7FFFFF 0xFF7FFFFF 0xFF7FFFFF 0 0 0 0)) = Some 0
   \<and> Sum (Avx2_32_Float (M256 0x7F7FFFFF 0x7F7FFFFF 0xFF7FFFFF 0xFF7FFFFF 0 0 0 0)) = 0xFFC00000
   \<and> f32_is_nan 0xFFC00000
   \<and> f32_units (Sum (Avx2_32_Float (M256 0x7F7FFFFF 0x7F7FFFFF 0xFF7FFFFF 0xFF7FFFFF 0 0 0 0)))
       \<noteq> exact_sum (Avx2_32_Float (M256 0x7F7FFFFF 0x7F7FFFFF 0xFF7FFFFF 0xFF7FFFFF 0 0 0 0))"
proof -
  have e: "exact_sum (Avx2_32_Float (M256 0x7F7FFFFF 0x7F7FFFFF 0xFF7FFFFF 0xFF7FFFFF 0 0 0 0))
             = Some 0"
    by (simp add: exact_sum_def units_max units_zero)
  have n: "f32_is_nan 0xFFC00000"
    by (simp add: f32_is_nan_def)
  show ?thesis
    by (simp add: e n Sum_overflow units_inf)
qed

text \<open>
  The lanes 1.0 to 8.0: every partial sum is a small whole number, so every addition is
  exact, and the result is 36.0.
\<close>

theorem Sum_pairwise_tree_witness:
  "map f32_units (to_array (f_data (Avx2_32_Float
      (M256 0x3F800000 0x40000000 0x40400000 0x40800000 0x40A00000 0x40C00000 0x40E00000 0x41000000))))
     = [Some (1 * 2 ^ 149), Some (2 * 2 ^ 149), Some (3 * 2 ^ 149), Some (4 * 2 ^ 149),
        Some (5 * 2 ^ 149), Some (6 * 2 ^ 149), Some (7 * 2 ^ 149), Some (8 * 2 ^ 149)]
   \<and> representable (36 * 2 ^ 149)
   \<and> f32_units 0x42100000 = Some (36 * 2 ^ 149)
   \<and> f32_units (Sum (Avx2_32_Float
      (M256 0x3F800000 0x40000000 0x40400000 0x40800000 0x40A00000 0x40C00000 0x40E00000 0x41000000)))
     = Some (36 * 2 ^ 149)"
proof -
  let ?v = "Avx2_32_Float
      (M256 0x3F800000 0x40000000 0x40400000 0x40800000 0x40A00000 0x40C00000 0x40E00000 0x41000000)"
  have lanes: "map f32_units (to_array (f_data ?v))
     = [Some (1 * 2 ^ 149), Some (2 * 2 ^ 149), Some (3 * 2 ^ 149), Some (4 * 2 ^ 149),
        Some (5 * 2 ^ 149), Some (6 * 2 ^ 149), Some (7 * 2 ^ 149), Some (8 * 2 ^ 149)]"
    by (simp add: f32_decode)
  have low: "representable (1 * 2 ^ 149 + 5 * 2 ^ 149)" "representable (2 * 2 ^ 149 + 6 * 2 ^ 149)"
    "representable (3 * 2 ^ 149 + 7 * 2 ^ 149)" "representable (4 * 2 ^ 149 + 8 * 2 ^ 149)"
    using representable_6 representable_8 representable_10 representable_12 by simp_all
  have mid: "representable ((1 * 2 ^ 149 + 5 * 2 ^ 149) + (2 * 2 ^ 149 + 6 * 2 ^ 149))"
    "representable ((3 * 2 ^ 149 + 7 * 2 ^ 149) + (4 * 2 ^ 149 + 8 * 2 ^ 149))"
    using representable_14 representable_22 by simp_all
  have top: "representable (((1 * 2 ^ 149 + 5 * 2 ^ 149) + (2 * 2 ^ 149 + 6 * 2 ^ 149))
      + ((3 * 2 ^ 149 + 7 * 2 ^ 149) + (4 * 2 ^ 149 + 8 * 2 ^ 149)))"
    using representable_36 by simp
  have hyp: "map f32_units (to_array (f_data ?v))
     = [Some (1 * 2 ^ 149), Some (2 * 2 ^ 149), Some (3 * 2 ^ 149), Some (4 * 2 ^ 149),
        Some (5 * 2 ^ 149), Some (6 * 2 ^ 149), Some (7 * 2 ^ 149), Some (8 * 2 ^ 149)]
    \<and> representable (1 * 2 ^ 149 + 5 * 2 ^ 149) \<and> representable (2 * 2 ^ 149 + 6 * 2 ^ 149)
    \<and> representable (3 * 2 ^ 149 + 7 * 2 ^ 149) \<and> representable (4 * 2 ^ 149 + 8 * 2 ^ 149)
    \<and> representable ((1 * 2 ^ 149 + 5 * 2 ^ 149) + (2 * 2 ^ 149 + 6 * 2 ^ 149))
    \<and> representable ((3 * 2 ^ 149 + 7 * 2 ^ 149) + (4 * 2 ^ 149 + 8 * 2 ^ 149))
    \<and> representable (((1 * 2 ^ 149 + 5 * 2 ^ 149) + (2 * 2 ^ 149 + 6 * 2 ^ 149))
      + ((3 * 2 ^ 149 + 7 * 2 ^ 149) + (4 * 2 ^ 149 + 8 * 2 ^ 149)))"
    using lanes low mid top by (intro conjI)
  note th = Sum_pairwise_tree [THEN conjunct2, rule_format, OF hyp]
  from th have a: "exact_sum ?v = Some (1 * 2 ^ 149 + 2 * 2 ^ 149 + 3 * 2 ^ 149 + 4 * 2 ^ 149
      + 5 * 2 ^ 149 + 6 * 2 ^ 149 + 7 * 2 ^ 149 + 8 * 2 ^ 149)"
    and b: "f32_units (Sum ?v) = exact_sum ?v"
    by blast+
  have c: "(1 * 2 ^ 149 + 2 * 2 ^ 149 + 3 * 2 ^ 149 + 4 * 2 ^ 149
      + 5 * 2 ^ 149 + 6 * 2 ^ 149 + 7 * 2 ^ 149 + 8 * 2 ^ 149 :: int) = 36 * 2 ^ 149"
    by simp
  have "f32_units (Sum ?v) = Some (36 * 2 ^ 149)"
    by (simp only: a b c)
  moreover have "f32_units 0x42100000 = Some (36 * 2 ^ 149)"
    by (simp add: f32_decode)
  ultimately show ?thesis
    using lanes representable_36 by blast
qed

section \<open>Alignment of Load and Store\<close>

lemma IsAligned_32: "IsAligned a 32 \<longleftrightarrow> a mod 32 = 0"
  by (simp add: IsAligned_def)

lemma assert_fires:
  "\<not> cond \<Longrightarrow> EBM_ASSERT True cond rest = Inl AssertionFailed"
  by (simp add: EBM_ASSERT_def)

lemma assert_passes:
  "cond \<Longrightarrow> EBM_ASSERT debug cond rest = rest"
  by (simp add: EBM_ASSERT_def)

lemma mm256_store_aligned: "a mod 32 = 0 \<Longrightarrow> \<not> isl (mm256_store m a r)"
  by (cases r) simp

lemma misaligned_asserted:
  assumes "\<not> IsAligned a 32"
  shows "Int_Load True m a = Inl AssertionFailed"
    and "Int_Store True iv m a = Inl AssertionFailed"
    and "Float_Load True m a = Inl AssertionFailed"
    and "Float_Store True fv m a = Inl AssertionFailed"
    and "Float_Load_idx True m a i = Inl AssertionFailed"
    and "Float_Store_idx True fv m a i = Inl AssertionFailed"
  using assms
  by (simp_all add: Int_Load_def Int_Store_def Float_Load_def Float_Store_def Float_Load_idx_def
      Float_Store_idx_def sizeof_TPack_def assert_fires)

lemma aligned_no_fault:
  assumes "IsAligned a 32"
  shows "\<not> isl (Int_Load debug m a)"
    and "\<not> isl (Int_Store debug iv m a)"
    and "\<not> isl (Float_Load debug m a)"
    and "\<not> isl (Float_Store debug fv m a)"
    and "\<not> isl (Float_Load_idx debug m a i)"
    and "\<not> isl (Float_Store_idx debug fv m a i)"
  using assms
  by (simp_all add: Int_Load_def Int_Store_def Float_Load_def Float_Store_def Float_Load_idx_def
      Float_Store_idx_def sizeof_TPack_def assert_passes mm256_store_aligned mm256_load_def
      IsAligned_32 Let_def)

text \<open>
  C7. The register is 32 bytes. Each of the two contiguous loads, the two contiguous
  stores, the gather load and the scatter store checks, in a debug build, that the base
  pointer is aligned to 32 bytes: with a pointer that is not, the assertion stops it.
  With an aligned pointer the assertion does not fire, and no other fault occurs, in
  either build.
\<close>

theorem aligned_Load_Store_assertion:
  "sizeof_TPack = 32
   \<and> (\<not> IsAligned a 32 \<longrightarrow>
        Int_Load True m a = Inl AssertionFailed
        \<and> Int_Store True iv m a = Inl AssertionFailed
        \<and> Float_Load True m a = Inl AssertionFailed
        \<and> Float_Store True fv m a = Inl AssertionFailed
        \<and> Float_Load_idx True m a i = Inl AssertionFailed
        \<and> Float_Store_idx True fv m a i = Inl AssertionFailed)
   \<and> (IsAligned a 32 \<longrightarrow>
        \<not> isl (Int_Load debug m a)
        \<and> \<not> isl (Int_Store debug iv m a)
        \<and> \<not> isl (Float_Load debug m a)
        \<and> \<not> isl (Float_Store debug fv m a)
        \<and> \<not> isl (Float_Load_idx debug m a i)
        \<and> \<not> isl (Float_Store_idx debug fv m a i))"
  by (intro conjI impI)
    (simp_all only: sizeof_TPack_def misaligned_asserted aligned_no_fault not_False_eq_True)

text \<open>
  The address 36 is a multiple of 4 but not of 32: the debug build stops at the assertion.
  The address 64 is aligned: the load returns the eight elements from there.
\<close>

theorem aligned_Load_Store_assertion_witness:
  "\<not> IsAligned 36 32 \<and> IsAligned 64 32
   \<and> Float_Load True (\<lambda>p. word_of_nat p) 36 = Inl AssertionFailed
   \<and> Int_Store True (Avx2_32_Int (M256 0 1 2 3 4 5 6 7)) (\<lambda>p. 0) 36 = Inl AssertionFailed
   \<and> Float_Load True (\<lambda>p. word_of_nat p) 64 = Inr (Avx2_32_Float (M256 64 68 72 76 80 84 88 92))
   \<and> \<not> isl (Float_Store_idx True (Avx2_32_Float (M256 0 1 2 3 4 5 6 7)) (\<lambda>p. 0) 64
              (Avx2_32_Int (M256 0 1 2 3 4 5 6 7)))"
proof -
  let ?iv = "Avx2_32_Int (M256 0 1 2 3 4 5 6 7)"
  let ?fv = "Avx2_32_Float (M256 0 1 2 3 4 5 6 7)"
  have mis: "\<not> IsAligned 36 32" and al: "IsAligned 64 32"
    by (simp_all add: IsAligned_def)
  note stop = aligned_Load_Store_assertion
    [where a = 36 and m = "\<lambda>p. word_of_nat p" and iv = ?iv and fv = ?fv and i = ?iv,
      THEN conjunct2, THEN conjunct1, rule_format, OF mis]
  note stop' = aligned_Load_Store_assertion
    [where a = 36 and m = "\<lambda>p. 0" and iv = ?iv and fv = ?fv and i = ?iv,
      THEN conjunct2, THEN conjunct1, rule_format, OF mis]
  note pass = aligned_Load_Store_assertion
    [where a = 64 and m = "\<lambda>p. 0" and iv = ?iv and fv = ?fv and i = ?iv and debug = True,
      THEN conjunct2, THEN conjunct2, rule_format, OF al]
  have load: "Float_Load True (\<lambda>p. word_of_nat p) 64
                = Inr (Avx2_32_Float (M256 64 68 72 76 80 84 88 92))"
    by (simp add: Float_Load_def EBM_ASSERT_def IsAligned_def sizeof_TPack_def mm256_load_def)
  show ?thesis
    using mis al stop stop' pass load by blast
qed

section \<open>The scatter store\<close>

lemma assign_all_append: "assign_all (ws @ ws') m = assign_all ws' (assign_all ws m)"
  by (induction ws arbitrary: m) auto

lemma assign_all_other: "p \<notin> fst ` set ws \<Longrightarrow> assign_all ws m p = m p"
  by (induction ws arbitrary: m) auto

lemma assign_all_last:
  assumes "p \<notin> fst ` set ws'"
  shows "assign_all (ws @ (p, x) # ws') m p = x"
  using assms by (simp add: assign_all_append assign_all_other)

lemma scatter_last_wins:
  fixes g :: "nat \<Rightarrow> addr" and x :: "nat \<Rightarrow> 32 word"
  assumes k: "k < n" and later: "\<forall>j<n. k < j \<longrightarrow> g j \<noteq> g k"
  shows "assign_all (map (\<lambda>k. (g k, x k)) [0..<n]) m (g k) = x k"
proof -
  have "[0..<n] = [0..<k] @ [k..<n]"
    using k by (metis le0 less_imp_le_nat upt_add_eq_append le_add_diff_inverse)
  then have split: "[0..<n] = [0..<k] @ k # [Suc k..<n]"
    using k by (simp add: upt_conv_Cons)
  have notin: "g k \<notin> fst ` set (map (\<lambda>k. (g k, x k)) [Suc k..<n])"
    using later by (auto simp add: image_iff)
  show ?thesis
    unfolding split using notin by (simp add: assign_all_last)
qed

lemma scatter_frame:
  fixes g :: "nat \<Rightarrow> addr" and x :: "nat \<Rightarrow> 32 word"
  assumes "\<forall>k<n. p \<noteq> g k"
  shows "assign_all (map (\<lambda>k. (g k, x k)) [0..<n]) m p = m p"
  using assms by (intro assign_all_other) (auto simp add: image_iff)

lemma Float_Store_idx_assign:
  assumes "debug \<longrightarrow> IsAligned a sizeof_TPack"
  shows "Float_Store_idx debug v m a i = Inr (assign_all (lane_writes a i v) m)"
proof -
  obtain x0 x1 x2 x3 x4 x5 x6 x7 where v: "v = Avx2_32_Float (M256 x0 x1 x2 x3 x4 x5 x6 x7)"
    by (rule Float_exhaust)
  obtain j0 j1 j2 j3 j4 j5 j6 j7 where i: "i = Avx2_32_Int (M256 j0 j1 j2 j3 j4 j5 j6 j7)"
    by (rule Int_exhaust)
  have "EBM_ASSERT debug (IsAligned a sizeof_TPack) rest = rest" for rest :: "fault + mem"
    using assms by (auto simp add: EBM_ASSERT_def)
  then show ?thesis
    by (simp add: v i Float_Store_idx_def lane_writes_def lane_def upt_8)
qed

text \<open>
  C8. Where the assertion does not stop it (a release build, or an aligned base
  pointer), the scatter store of \<^verbatim>\<open>Avx2_32_Float\<close> performs the eight assignments
  \<^verbatim>\<open>a[i[k]] = v[k]\<close> for the lanes 0 to 7 in that order. Afterwards, for every lane
  \<open>k\<close> whose index no higher lane repeats, element \<open>a[i[k]]\<close> holds the value of lane
  \<open>k\<close>: so an index carried by several lanes ends with the value of the highest of
  them. An array element whose index is none of the eight lane indexes, and any other
  address that is not one of the eight written, is as it was.
\<close>

theorem scatter_Store_order:
  assumes "debug \<longrightarrow> IsAligned a sizeof_TPack"
  shows "Float_Store_idx debug v m a i = Inr (assign_all (lane_writes a i v) m)
    \<and> (\<forall>k<8. (\<forall>j<8. k < j \<longrightarrow> lane (i_data i) j \<noteq> lane (i_data i) k) \<longrightarrow>
          assign_all (lane_writes a i v) m (a + 4 * unat (lane (i_data i) k)) = lane (f_data v) k)
    \<and> (\<forall>n. (\<forall>k<8. n \<noteq> unat (lane (i_data i) k)) \<longrightarrow>
          assign_all (lane_writes a i v) m (a + 4 * n) = m (a + 4 * n))
    \<and> (\<forall>p. (\<forall>k<8. p \<noteq> a + 4 * unat (lane (i_data i) k)) \<longrightarrow>
          assign_all (lane_writes a i v) m p = m p)"
proof (intro conjI allI impI)
  show "Float_Store_idx debug v m a i = Inr (assign_all (lane_writes a i v) m)"
    using assms by (rule Float_Store_idx_assign)
next
  fix k
  assume k: "k < 8" and top: "\<forall>j<8. k < j \<longrightarrow> lane (i_data i) j \<noteq> lane (i_data i) k"
  have "\<forall>j<8. k < j \<longrightarrow>
          a + 4 * unat (lane (i_data i) j) \<noteq> a + 4 * unat (lane (i_data i) k)"
    using top by (simp add: word_unat_eq_iff)
  with k show "assign_all (lane_writes a i v) m (a + 4 * unat (lane (i_data i) k))
                 = lane (f_data v) k"
    unfolding lane_writes_def
    by (rule scatter_last_wins
        [where g = "\<lambda>k. a + 4 * unat (lane (i_data i) k)" and x = "\<lambda>k. lane (f_data v) k"])
next
  fix n
  assume "\<forall>k<8. n \<noteq> unat (lane (i_data i) k)"
  then have "\<forall>k<8. a + 4 * n \<noteq> a + 4 * unat (lane (i_data i) k)"
    by simp
  then show "assign_all (lane_writes a i v) m (a + 4 * n) = m (a + 4 * n)"
    unfolding lane_writes_def by (rule scatter_frame)
next
  fix p
  assume "\<forall>k<8. p \<noteq> a + 4 * unat (lane (i_data i) k)"
  then show "assign_all (lane_writes a i v) m p = m p"
    unfolding lane_writes_def by (rule scatter_frame)
qed

text \<open>
  The indexes 2, 5, 2, 7, 1, 5, 0, 2 with the values 10 to 17, into an array of zeros at
  address 64: element 2 ends with 17, the value of lane 7, the last of the three lanes
  that carry 2; element 5 with 15; element 3, which no lane names, stays 0.
\<close>

theorem scatter_Store_order_witness:
  "(True \<and> IsAligned 64 sizeof_TPack)
   \<and> (\<exists>m'. Float_Store_idx True (Avx2_32_Float (M256 10 11 12 13 14 15 16 17)) (\<lambda>p. 0) 64
              (Avx2_32_Int (M256 2 5 2 7 1 5 0 2)) = Inr m'
          \<and> m' (64 + 4 * 2) = 17 \<and> m' (64 + 4 * 5) = 15 \<and> m' (64 + 4 * 7) = 13
          \<and> m' (64 + 4 * 1) = 14 \<and> m' (64 + 4 * 0) = 16 \<and> m' (64 + 4 * 3) = 0)"
proof -
  let ?v = "Avx2_32_Float (M256 10 11 12 13 14 15 16 17)"
  let ?i = "Avx2_32_Int (M256 2 5 2 7 1 5 0 2)"
  let ?m = "\<lambda>p::nat. 0::32 word"
  have al: "True \<longrightarrow> IsAligned 64 sizeof_TPack"
    by (simp add: IsAligned_def sizeof_TPack_def)
  note th = scatter_Store_order [OF al, of ?v ?m ?i]
  have run: "Float_Store_idx True ?v ?m 64 ?i = Inr (assign_all (lane_writes 64 ?i ?v) ?m)"
    using th by blast
  have vals: "assign_all (lane_writes 64 ?i ?v) ?m (64 + 4 * 2) = 17"
    "assign_all (lane_writes 64 ?i ?v) ?m (64 + 4 * 5) = 15"
    "assign_all (lane_writes 64 ?i ?v) ?m (64 + 4 * 7) = 13"
    "assign_all (lane_writes 64 ?i ?v) ?m (64 + 4 * 1) = 14"
    "assign_all (lane_writes 64 ?i ?v) ?m (64 + 4 * 0) = 16"
    "assign_all (lane_writes 64 ?i ?v) ?m (64 + 4 * 3) = 0"
    by (simp_all add: lane_writes_def lane_def upt_8)
  show ?thesis
    using al run vals by simp
qed

section \<open>Initialising and releasing the wrapper\<close>

lemma free_blocks:
  "blocks p \<subseteq> h \<Longrightarrow> free h p = Some (h - blocks p)"
  by (cases p) (simp_all add: free_def)

text \<open>
  C10. After \<^verbatim>\<open>InitializeObjectiveWrapperUnfailing\<close>, whatever the wrapper held before,
  the five entry points and the two payload pointers are \<open>NULL\<close>, the link function is
  \<^verbatim>\<open>Link_ERROR\<close>, the three flags are false and every number is zero. Hence
  \<^verbatim>\<open>FreeObjectiveWrapperInternals\<close> on a wrapper that was initialised and never
  populated is defined and releases nothing: the heap and the wrapper stay as they are.
\<close>

theorem Initialize_then_Free_releases_nothing:
  "InitializeObjectiveWrapperUnfailing w =
     \<lparr> m_pApplyUpdateC = NULL, m_pFinishMetricC = NULL, m_pCheckTargetsC = NULL,
       m_pBinSumsBoostingC = NULL, m_pBinSumsInteractionC = NULL, m_pObjective = NULL,
       m_bMaximizeMetric = EBM_FALSE, m_linkFunction = Link_ERROR, m_linkParam = 0,
       m_learningRateAdjustmentDifferentialPrivacy = 0,
       m_learningRateAdjustmentGradientBoosting = 0,
       m_learningRateAdjustmentHessianBoosting = 0,
       m_gainAdjustmentGradientBoosting = 0, m_gainAdjustmentHessianBoosting = 0,
       m_gradientConstant = 0, m_hessianConstant = 0,
       m_bObjectiveHasHessian = EBM_FALSE, m_bRmse = EBM_FALSE,
       m_cSIMDPack = 0, m_cFloatBytes = 0, m_cUIntBytes = 0,
       m_pFunctionPointersCpp = NULL \<rparr>
   \<and> FreeObjectiveWrapperInternals (h, InitializeObjectiveWrapperUnfailing w)
       = Some (h, InitializeObjectiveWrapperUnfailing w)"
  by (simp add: InitializeObjectiveWrapperUnfailing_def FreeObjectiveWrapperInternals_def free_def)

text \<open>
  C2. One call of \<^verbatim>\<open>FreeObjectiveWrapperInternals\<close> on a wrapper whose two payload
  pointers are each \<open>NULL\<close> or a live block, and not the same block, releases both
  payloads, \<^verbatim>\<open>m_pObjective\<close> and \<^verbatim>\<open>m_pFunctionPointersCpp\<close>, and nothing else of the
  heap; it changes no field of the wrapper.
\<close>

theorem Free_releases_both_payloads:
  assumes "blocks (m_pObjective w) \<subseteq> h"
    and "blocks (m_pFunctionPointersCpp w) \<subseteq> h"
    and "blocks (m_pObjective w) \<inter> blocks (m_pFunctionPointersCpp w) = {}"
  shows "FreeObjectiveWrapperInternals (h, w)
           = Some (h - blocks (m_pObjective w) - blocks (m_pFunctionPointersCpp w), w)"
proof -
  have 1: "free h (m_pObjective w) = Some (h - blocks (m_pObjective w))"
    using assms(1) by (rule free_blocks)
  have "blocks (m_pFunctionPointersCpp w) \<subseteq> h - blocks (m_pObjective w)"
    using assms(2,3) by blast
  then have 2: "free (h - blocks (m_pObjective w)) (m_pFunctionPointersCpp w)
                  = Some (h - blocks (m_pObjective w) - blocks (m_pFunctionPointersCpp w))"
    by (rule free_blocks)
  show ?thesis
    by (simp add: FreeObjectiveWrapperInternals_def 1 2)
qed

text \<open>
  A heap with the blocks 3, 5 and 9, and a wrapper whose payloads are the blocks 3 and 5:
  after the call only block 9 is live, and the wrapper is the same.
\<close>

theorem Free_releases_both_payloads_witness:
  "blocks (m_pObjective stale_wrapper) \<subseteq> {3, 5, 9}
   \<and> blocks (m_pFunctionPointersCpp stale_wrapper) \<subseteq> {3, 5, 9}
   \<and> blocks (m_pObjective stale_wrapper) \<inter> blocks (m_pFunctionPointersCpp stale_wrapper) = {}
   \<and> FreeObjectiveWrapperInternals ({3, 5, 9}, stale_wrapper) = Some ({9}, stale_wrapper)"
proof -
  have a: "blocks (m_pObjective stale_wrapper) \<subseteq> {3, 5, 9}"
    and b: "blocks (m_pFunctionPointersCpp stale_wrapper) \<subseteq> {3, 5, 9}"
    and c: "blocks (m_pObjective stale_wrapper) \<inter> blocks (m_pFunctionPointersCpp stale_wrapper) = {}"
    by (simp_all add: stale_wrapper_def)
  have d: "{3, 5, 9} - blocks (m_pObjective stale_wrapper)
             - blocks (m_pFunctionPointersCpp stale_wrapper) = {9::nat}"
    by (simp add: stale_wrapper_def)
  show ?thesis
    using a b c Free_releases_both_payloads [OF a b c] by (simp only: d simp_thms)
qed

section \<open>Creating the binding\<close>
















end
